theory Spec2Isabelle
  imports Main
begin

section \<open>The script \<^verbatim>\<open>scripts/validate_local.py\<close> as a state-and-exception program\<close>

text \<open>
  The script is a flat module body: an argument-count guard, two file reads with
  \<^verbatim>\<open>json.loads\<close>, one call of \<^verbatim>\<open>jsonschema.validate\<close> inside
  \<^verbatim>\<open>try ... except ValidationError\<close>, and a printed verdict.

  Everything the script calls lives outside the repository. The file system, the JSON
  parser and the schema validator are therefore parameters of the model, and the theorems
  hold for every choice of them:
  \<^item> the file system gives, for each path, what
    \<^verbatim>\<open>Path(p).read_text(encoding='utf-8')\<close> does: it raises, or it returns the text;
  \<^item> \<^verbatim>\<open>json.loads\<close> raises \<^verbatim>\<open>JSONDecodeError\<close> or returns a value;
  \<^item> \<^verbatim>\<open>validate\<close> returns, raises \<^verbatim>\<open>ValidationError\<close> (with its
    \<^verbatim>\<open>message\<close>), raises \<^verbatim>\<open>SchemaError\<close>, or raises something else.
  The two library functions are functions of their arguments, and a call of
  \<^verbatim>\<open>print\<close> succeeds.
\<close>

subsection \<open>Exceptions, events, process state\<close>

type_synonym path = string

text \<open>What \<^verbatim>\<open>read_text\<close> can raise.\<close>

datatype read_failure =
  FileNotFoundError | PermissionError | IsADirectoryError | UnicodeDecodeError

text \<open>The exceptions that can travel through the script.\<close>

datatype exn =
  ReadError read_failure
  | JSONDecodeError string
  | ValidationError string
  | SchemaError string
  | OtherError string
  | IndexError
  | SystemExit int

text \<open>What a call of \<^verbatim>\<open>jsonschema.validate\<close> does.\<close>

datatype verdict =
  Valid
  | RaisesValidationError string
  | RaisesSchemaError string
  | RaisesOther string

text \<open>The two library functions the script imports; \<open>'j\<close> is the type of decoded JSON.\<close>

record 'j lib =
  lib_loads :: "string \<Rightarrow> string + 'j"
  lib_validate :: "'j \<Rightarrow> 'j \<Rightarrow> verdict"

type_synonym filesystem = "path \<Rightarrow> read_failure + string"

text \<open>
  The effects a run leaves behind, in order: an attempt to open and read a file, and a
  line written to standard output.
\<close>

datatype event = ReadText path | Stdout string

record pstate =
  files :: filesystem
  trace :: "event list"

type_synonym 'a py = "pstate \<Rightarrow> (exn + 'a) \<times> pstate"

subsection \<open>Sequencing, raising, catching\<close>

definition py_return :: "'a \<Rightarrow> 'a py" where
  "py_return x s = (Inr x, s)"

definition py_raise :: "exn \<Rightarrow> 'a py" where
  "py_raise e s = (Inl e, s)"

definition py_bind :: "'a py \<Rightarrow> ('a \<Rightarrow> 'b py) \<Rightarrow> 'b py" where
  "py_bind m f s = (case m s of (Inl e, s') \<Rightarrow> (Inl e, s') | (Inr x, s') \<Rightarrow> f x s')"

definition py_then :: "unit py \<Rightarrow> 'b py \<Rightarrow> 'b py" where
  "py_then m n = py_bind m (\<lambda>_. n)"

text \<open>
  \<^verbatim>\<open>try: body  except ValidationError as e: handler(e.message)\<close>.
  Only \<^verbatim>\<open>ValidationError\<close> is caught; every other exception passes through.
\<close>

definition try_except_ValidationError :: "unit py \<Rightarrow> (string \<Rightarrow> unit py) \<Rightarrow> unit py" where
  "try_except_ValidationError body handler s =
     (case body s of
        (Inl (ValidationError message), s') \<Rightarrow> handler message s'
      | r \<Rightarrow> r)"

subsection \<open>The calls the script makes\<close>

text \<open>\<^verbatim>\<open>sys.argv[i]\<close>: raises \<^verbatim>\<open>IndexError\<close> out of range.\<close>

definition argv_item :: "string list \<Rightarrow> nat \<Rightarrow> string py" where
  "argv_item argv i = (if i < length argv then py_return (argv ! i) else py_raise IndexError)"

text \<open>\<^verbatim>\<open>print(a, b, ...)\<close>: the arguments separated by one space, as one line.\<close>

fun join_space :: "string list \<Rightarrow> string" where
  "join_space [] = []"
| "join_space [a] = a"
| "join_space (a # b # bs) = a @ '' '' @ join_space (b # bs)"

definition py_print :: "string list \<Rightarrow> unit py" where
  "py_print args s = (Inr (), s\<lparr>trace := trace s @ [Stdout (join_space args)]\<rparr>)"

text \<open>\<^verbatim>\<open>sys.exit(n)\<close> raises \<^verbatim>\<open>SystemExit(n)\<close>.\<close>

definition sys_exit :: "int \<Rightarrow> 'a py" where
  "sys_exit n = py_raise (SystemExit n)"

text \<open>\<^verbatim>\<open>Path(p).read_text(encoding='utf-8')\<close>: the file system is read, never changed.\<close>

definition read_text :: "path \<Rightarrow> string py" where
  "read_text p s =
     ((case files s p of Inl f \<Rightarrow> Inl (ReadError f) | Inr text \<Rightarrow> Inr text),
      s\<lparr>trace := trace s @ [ReadText p]\<rparr>)"

definition json_loads :: "'j lib \<Rightarrow> string \<Rightarrow> 'j py" where
  "json_loads l text =
     (case lib_loads l text of
        Inl msg \<Rightarrow> py_raise (JSONDecodeError msg)
      | Inr v \<Rightarrow> py_return v)"

definition validate :: "'j lib \<Rightarrow> 'j \<Rightarrow> 'j \<Rightarrow> unit py" where
  "validate l inst schema =
     (case lib_validate l inst schema of
        Valid \<Rightarrow> py_return ()
      | RaisesValidationError m \<Rightarrow> py_raise (ValidationError m)
      | RaisesSchemaError m \<Rightarrow> py_raise (SchemaError m)
      | RaisesOther m \<Rightarrow> py_raise (OtherError m))"

subsection \<open>The module body\<close>

definition usage :: string where
  "usage = ''Usage: validate_local.py <json-file> <schema-file>''"

definition validate_local :: "'j lib \<Rightarrow> string list \<Rightarrow> unit py" where
  "validate_local l argv =
     py_then
       (if length argv < 3 then
          py_then (py_print [usage]) (sys_exit 2)
        else py_return ())
       (py_bind (argv_item argv 1) (\<lambda>jf.
        py_bind (argv_item argv 2) (\<lambda>sf.
        py_bind (py_bind (read_text jf) (json_loads l)) (\<lambda>data.
        py_bind (py_bind (read_text sf) (json_loads l)) (\<lambda>schema.
        try_except_ValidationError
          (py_then (validate l data schema) (py_print [''Validation OK'']))
          (\<lambda>message.
             py_then (py_print [''Validation FAILED:'', message]) (sys_exit 1)))))))"

text \<open>One process: the module body run on the given file system, with nothing done yet.\<close>

definition run :: "'j lib \<Rightarrow> string list \<Rightarrow> filesystem \<Rightarrow> (exn + unit) \<times> pstate" where
  "run l argv fs = validate_local l argv \<lparr>files = fs, trace = []\<rparr>"

subsection \<open>What an observer of the process sees\<close>

text \<open>
  The interpreter's exit status: 0 when the module body runs to its end, the argument of
  \<^verbatim>\<open>sys.exit\<close> (the script passes only 1 and 2), and 1 after any other exception
  reaches the top level, where the interpreter prints a traceback on standard error.
\<close>

fun exit_status :: "exn + unit \<Rightarrow> int" where
  "exit_status (Inr _) = 0"
| "exit_status (Inl (SystemExit n)) = n"
| "exit_status (Inl _) = 1"

text \<open>An exception other than \<^verbatim>\<open>SystemExit\<close> reached the top level.\<close>

fun unhandled :: "exn + unit \<Rightarrow> bool" where
  "unhandled (Inr _) = False"
| "unhandled (Inl (SystemExit _)) = False"
| "unhandled (Inl _) = True"

fun stdout_lines :: "event list \<Rightarrow> string list" where
  "stdout_lines [] = []"
| "stdout_lines (Stdout line # es) = line # stdout_lines es"
| "stdout_lines (ReadText _ # es) = stdout_lines es"

fun reads :: "event list \<Rightarrow> path list" where
  "reads [] = []"
| "reads (ReadText p # es) = p # reads es"
| "reads (Stdout _ # es) = reads es"

text \<open>The bytes on standard output: every printed line followed by a newline.\<close>

definition stdout_text :: "event list \<Rightarrow> string" where
  "stdout_text es = concat (map (\<lambda>line. line @ [CHR 0x0A]) (stdout_lines es))"

text \<open>Reading and parsing the file at \<open>p\<close> raises.\<close>

definition load_fails :: "'j lib \<Rightarrow> filesystem \<Rightarrow> path \<Rightarrow> bool" where
  "load_fails l fs p =
     (case fs p of
        Inl _ \<Rightarrow> True
      | Inr text \<Rightarrow> (case lib_loads l text of Inl _ \<Rightarrow> True | Inr _ \<Rightarrow> False))"

subsection \<open>JSON text\<close>

text \<open>
  The claims speak of syntactically valid JSON. That is the grammar of RFC 8259:
  a JSON text is one value with optional whitespace around it; a value is an object, an
  array, a string, a number or one of the names \<^verbatim>\<open>true\<close>, \<^verbatim>\<open>false\<close>,
  \<^verbatim>\<open>null\<close>. The recogniser reads the text once, character by character, with the
  stack of the objects and arrays that are open.
\<close>

datatype container = InArray | InObject

text \<open>Where in the grammar the reader is.\<close>

datatype mode =
  ExpectValue
  | ExpectValueOrEnd
  | ExpectKeyOrEnd
  | ExpectKey
  | ExpectColon
  | AfterValue
  | InString bool
  | Escape bool
  | Hex bool nat
  | InLiteral string
  | NumMinus | NumZero | NumInt | NumDot | NumFrac | NumExp | NumExpSign | NumExpDigits

text \<open>Whitespace is space, tab, line feed and carriage return.\<close>

definition is_ws :: "char \<Rightarrow> bool" where
  "is_ws c = (c = CHR '' '' \<or> c = CHR 0x09 \<or> c = CHR 0x0A \<or> c = CHR 0x0D)"

definition is_digit :: "char \<Rightarrow> bool" where
  "is_digit c = (c \<in> set ''0123456789'')"

definition is_digit19 :: "char \<Rightarrow> bool" where
  "is_digit19 c = (c \<in> set ''123456789'')"

definition is_hexdig :: "char \<Rightarrow> bool" where
  "is_hexdig c = (c \<in> set ''0123456789abcdefABCDEF'')"

text \<open>The first character of a value.\<close>

definition begin_value :: "container list \<Rightarrow> char \<Rightarrow> (mode \<times> container list) option" where
  "begin_value stack c =
     (if c = CHR ''{'' then Some (ExpectKeyOrEnd, InObject # stack)
      else if c = CHR ''['' then Some (ExpectValueOrEnd, InArray # stack)
      else if c = CHR 0x22 then Some (InString False, stack)
      else if c = CHR ''-'' then Some (NumMinus, stack)
      else if c = CHR ''0'' then Some (NumZero, stack)
      else if is_digit19 c then Some (NumInt, stack)
      else if c = CHR ''t'' then Some (InLiteral ''rue'', stack)
      else if c = CHR ''f'' then Some (InLiteral ''alse'', stack)
      else if c = CHR ''n'' then Some (InLiteral ''ull'', stack)
      else None)"

text \<open>What may follow a complete value: whitespace, a comma, or the closing bracket.\<close>

definition after_value :: "container list \<Rightarrow> char \<Rightarrow> (mode \<times> container list) option" where
  "after_value stack c =
     (if is_ws c then Some (AfterValue, stack)
      else case stack of
        [] \<Rightarrow> None
      | InArray # rest \<Rightarrow>
          if c = CHR '','' then Some (ExpectValue, stack)
          else if c = CHR '']'' then Some (AfterValue, rest)
          else None
      | InObject # rest \<Rightarrow>
          if c = CHR '','' then Some (ExpectKey, stack)
          else if c = CHR ''}'' then Some (AfterValue, rest)
          else None)"

fun json_step :: "mode \<Rightarrow> container list \<Rightarrow> char \<Rightarrow> (mode \<times> container list) option" where
  "json_step ExpectValue stack c =
     (if is_ws c then Some (ExpectValue, stack) else begin_value stack c)"
| "json_step ExpectValueOrEnd stack c =
     (if is_ws c then Some (ExpectValueOrEnd, stack)
      else if c = CHR '']'' then Some (AfterValue, tl stack)
      else begin_value stack c)"
| "json_step ExpectKeyOrEnd stack c =
     (if is_ws c then Some (ExpectKeyOrEnd, stack)
      else if c = CHR ''}'' then Some (AfterValue, tl stack)
      else if c = CHR 0x22 then Some (InString True, stack)
      else None)"
| "json_step ExpectKey stack c =
     (if is_ws c then Some (ExpectKey, stack)
      else if c = CHR 0x22 then Some (InString True, stack)
      else None)"
| "json_step ExpectColon stack c =
     (if is_ws c then Some (ExpectColon, stack)
      else if c = CHR '':'' then Some (ExpectValue, stack)
      else None)"
| "json_step AfterValue stack c = after_value stack c"
| "json_step (InString key) stack c =
     (if c = CHR 0x22 then Some (if key then ExpectColon else AfterValue, stack)
      else if c = CHR 0x5C then Some (Escape key, stack)
      else if (of_char c :: nat) < 0x20 then None
      else Some (InString key, stack))"
| "json_step (Escape key) stack c =
     (if c = CHR 0x22 \<or> c = CHR 0x5C \<or> c \<in> set ''/bfnrt'' then Some (InString key, stack)
      else if c = CHR ''u'' then Some (Hex key 4, stack)
      else None)"
| "json_step (Hex key n) stack c =
     (if is_hexdig c then Some (if n \<le> 1 then InString key else Hex key (n - 1), stack)
      else None)"
| "json_step (InLiteral rest) stack c =
     (case rest of
        [] \<Rightarrow> None
      | x # xs \<Rightarrow>
          if c = x then Some (if xs = [] then AfterValue else InLiteral xs, stack) else None)"
| "json_step NumMinus stack c =
     (if c = CHR ''0'' then Some (NumZero, stack)
      else if is_digit19 c then Some (NumInt, stack)
      else None)"
| "json_step NumZero stack c =
     (if c = CHR ''.'' then Some (NumDot, stack)
      else if c = CHR ''e'' \<or> c = CHR ''E'' then Some (NumExp, stack)
      else after_value stack c)"
| "json_step NumInt stack c =
     (if is_digit c then Some (NumInt, stack)
      else if c = CHR ''.'' then Some (NumDot, stack)
      else if c = CHR ''e'' \<or> c = CHR ''E'' then Some (NumExp, stack)
      else after_value stack c)"
| "json_step NumDot stack c = (if is_digit c then Some (NumFrac, stack) else None)"
| "json_step NumFrac stack c =
     (if is_digit c then Some (NumFrac, stack)
      else if c = CHR ''e'' \<or> c = CHR ''E'' then Some (NumExp, stack)
      else after_value stack c)"
| "json_step NumExp stack c =
     (if c = CHR ''+'' \<or> c = CHR ''-'' then Some (NumExpSign, stack)
      else if is_digit c then Some (NumExpDigits, stack)
      else None)"
| "json_step NumExpSign stack c = (if is_digit c then Some (NumExpDigits, stack) else None)"
| "json_step NumExpDigits stack c =
     (if is_digit c then Some (NumExpDigits, stack) else after_value stack c)"

text \<open>The text may end here: a value is complete (a number ends where the text ends).\<close>

fun value_complete :: "mode \<Rightarrow> bool" where
  "value_complete AfterValue = True"
| "value_complete NumZero = True"
| "value_complete NumInt = True"
| "value_complete NumFrac = True"
| "value_complete NumExpDigits = True"
| "value_complete _ = False"

fun json_scan :: "mode \<Rightarrow> container list \<Rightarrow> string \<Rightarrow> bool" where
  "json_scan m stack [] = (value_complete m \<and> stack = [])"
| "json_scan m stack (c # cs) =
     (case json_step m stack c of
        None \<Rightarrow> False
      | Some (m', stack') \<Rightarrow> json_scan m' stack' cs)"

definition json_text :: "string \<Rightarrow> bool" where
  "json_text text = json_scan ExpectValue [] text"

subsection \<open>A small stand-in environment for concrete runs\<close>

text \<open>
  A parser that knows six texts and a validator that accepts under the schemas
  \<^verbatim>\<open>{}\<close> and \<^verbatim>\<open>true\<close>, rejects under \<^verbatim>\<open>false\<close> and refuses every other
  schema. It stands in for the libraries where a theorem is applied to a concrete run.
  Like \<^verbatim>\<open>json.loads\<close> with its default arguments, the parser decodes the text
  \<^verbatim>\<open>NaN\<close> to a float.
\<close>

datatype json =
  JNum int | JNaN | JBool bool | JArr "json list" | JObj "(string \<times> json) list"

definition stub_loads :: "string \<Rightarrow> string + json" where
  "stub_loads text =
     (if text = ''12'' then Inr (JNum 12)
      else if text = ''{}'' then Inr (JObj [])
      else if text = ''true'' then Inr (JBool True)
      else if text = ''false'' then Inr (JBool False)
      else if text = ''[]'' then Inr (JArr [])
      else if text = ''NaN'' then Inr JNaN
      else Inl ''Expecting value'')"

fun stub_validate :: "json \<Rightarrow> json \<Rightarrow> verdict" where
  "stub_validate inst (JObj []) = Valid"
| "stub_validate inst (JBool True) = Valid"
| "stub_validate inst (JBool False) = RaisesValidationError ''False schema does not allow the instance''"
| "stub_validate inst schema = RaisesSchemaError ''not a schema''"

definition stub_lib :: "json lib" where
  "stub_lib = \<lparr>lib_loads = stub_loads, lib_validate = stub_validate\<rparr>"

definition stub_fs :: filesystem where
  "stub_fs p =
     (if p = ''doc.json'' then Inr ''12''
      else if p = ''accept.json'' then Inr ''{}''
      else if p = ''reject.json'' then Inr ''false''
      else if p = ''list.json'' then Inr ''[]''
      else if p = ''broken.json'' then Inr ''{''
      else if p = ''nan.json'' then Inr ''NaN''
      else if p = ''secret.json'' then Inl PermissionError
      else Inl FileNotFoundError)"

section \<open>The paths through the script\<close>

lemmas script_defs = run_def validate_local_def py_then_def py_bind_def py_print_def
      sys_exit_def py_raise_def py_return_def argv_item_def read_text_def json_loads_def
      validate_def try_except_ValidationError_def

lemma run_usage:
  "length argv < 3 \<Longrightarrow>
   run l argv fs = (Inl (SystemExit 2), \<lparr>files = fs, trace = [Stdout usage]\<rparr>)"
  by (simp add: script_defs)

lemma run_read_doc_fails:
  "3 \<le> length argv \<Longrightarrow> fs (argv ! 1) = Inl f \<Longrightarrow>
   run l argv fs = (Inl (ReadError f), \<lparr>files = fs, trace = [ReadText (argv ! 1)]\<rparr>)"
  by (simp add: script_defs)

lemma run_parse_doc_fails:
  "3 \<le> length argv \<Longrightarrow> fs (argv ! 1) = Inr td \<Longrightarrow> lib_loads l td = Inl m \<Longrightarrow>
   run l argv fs = (Inl (JSONDecodeError m), \<lparr>files = fs, trace = [ReadText (argv ! 1)]\<rparr>)"
  by (simp add: script_defs)

lemma run_read_schema_fails:
  "3 \<le> length argv \<Longrightarrow> fs (argv ! 1) = Inr td \<Longrightarrow> lib_loads l td = Inr d \<Longrightarrow>
   fs (argv ! 2) = Inl f \<Longrightarrow>
   run l argv fs =
     (Inl (ReadError f), \<lparr>files = fs, trace = [ReadText (argv ! 1), ReadText (argv ! 2)]\<rparr>)"
  by (simp add: script_defs)

lemma run_parse_schema_fails:
  "3 \<le> length argv \<Longrightarrow> fs (argv ! 1) = Inr td \<Longrightarrow> lib_loads l td = Inr d \<Longrightarrow>
   fs (argv ! 2) = Inr ts \<Longrightarrow> lib_loads l ts = Inl m \<Longrightarrow>
   run l argv fs =
     (Inl (JSONDecodeError m),
      \<lparr>files = fs, trace = [ReadText (argv ! 1), ReadText (argv ! 2)]\<rparr>)"
  by (simp add: script_defs)

lemma run_valid:
  "3 \<le> length argv \<Longrightarrow> fs (argv ! 1) = Inr td \<Longrightarrow> lib_loads l td = Inr d \<Longrightarrow>
   fs (argv ! 2) = Inr ts \<Longrightarrow> lib_loads l ts = Inr sc \<Longrightarrow> lib_validate l d sc = Valid \<Longrightarrow>
   run l argv fs =
     (Inr (),
      \<lparr>files = fs,
       trace = [ReadText (argv ! 1), ReadText (argv ! 2), Stdout ''Validation OK'']\<rparr>)"
  by (simp add: script_defs)

lemma run_invalid:
  "3 \<le> length argv \<Longrightarrow> fs (argv ! 1) = Inr td \<Longrightarrow> lib_loads l td = Inr d \<Longrightarrow>
   fs (argv ! 2) = Inr ts \<Longrightarrow> lib_loads l ts = Inr sc \<Longrightarrow>
   lib_validate l d sc = RaisesValidationError m \<Longrightarrow>
   run l argv fs =
     (Inl (SystemExit 1),
      \<lparr>files = fs,
       trace = [ReadText (argv ! 1), ReadText (argv ! 2),
                Stdout (''Validation FAILED: '' @ m)]\<rparr>)"
  by (simp add: script_defs)

lemma run_schema_error:
  "3 \<le> length argv \<Longrightarrow> fs (argv ! 1) = Inr td \<Longrightarrow> lib_loads l td = Inr d \<Longrightarrow>
   fs (argv ! 2) = Inr ts \<Longrightarrow> lib_loads l ts = Inr sc \<Longrightarrow>
   lib_validate l d sc = RaisesSchemaError m \<Longrightarrow>
   run l argv fs =
     (Inl (SchemaError m),
      \<lparr>files = fs, trace = [ReadText (argv ! 1), ReadText (argv ! 2)]\<rparr>)"
  by (simp add: script_defs)

lemma run_other_error:
  "3 \<le> length argv \<Longrightarrow> fs (argv ! 1) = Inr td \<Longrightarrow> lib_loads l td = Inr d \<Longrightarrow>
   fs (argv ! 2) = Inr ts \<Longrightarrow> lib_loads l ts = Inr sc \<Longrightarrow>
   lib_validate l d sc = RaisesOther m \<Longrightarrow>
   run l argv fs =
     (Inl (OtherError m),
      \<lparr>files = fs, trace = [ReadText (argv ! 1), ReadText (argv ! 2)]\<rparr>)"
  by (simp add: script_defs)

text \<open>No path changes the file system.\<close>

lemma run_files: "files (snd (run l argv fs)) = fs"
  by (simp add: script_defs split: sum.splits verdict.splits prod.splits exn.splits)

text \<open>
  The two load steps in order: when the document cannot be loaded nothing else happens;
  when it can, the schema is opened next.
\<close>

lemma run_load_doc_fails:
  assumes "3 \<le> length argv" and "load_fails l fs (argv ! 1)"
  shows "unhandled (fst (run l argv fs))
       \<and> trace (snd (run l argv fs)) = [ReadText (argv ! 1)]"
proof (cases "fs (argv ! 1)")
  case (Inl f)
  with assms(1) show ?thesis by (simp add: run_read_doc_fails)
next
  case (Inr td)
  with assms(2) obtain m where "lib_loads l td = Inl m"
    by (auto simp: load_fails_def split: sum.splits)
  with assms(1) Inr show ?thesis by (simp add: run_parse_doc_fails)
qed

lemma run_load_schema_fails:
  assumes "3 \<le> length argv" and "\<not> load_fails l fs (argv ! 1)"
    and "load_fails l fs (argv ! 2)"
  shows "unhandled (fst (run l argv fs))
       \<and> trace (snd (run l argv fs)) = [ReadText (argv ! 1), ReadText (argv ! 2)]"
proof -
  from assms(2) obtain td d where doc: "fs (argv ! 1) = Inr td" "lib_loads l td = Inr d"
    by (auto simp: load_fails_def split: sum.splits)
  show ?thesis
  proof (cases "fs (argv ! 2)")
    case (Inl f)
    with assms(1) doc show ?thesis by (simp add: run_read_schema_fails)
  next
    case (Inr ts)
    with assms(3) obtain m where "lib_loads l ts = Inl m"
      by (auto simp: load_fails_def split: sum.splits)
    with assms(1) doc Inr show ?thesis by (simp add: run_parse_schema_fails)
  qed
qed

lemma run_loaded_reads:
  assumes "3 \<le> length argv" and "\<not> load_fails l fs (argv ! 1)"
  shows "reads (trace (snd (run l argv fs))) = [argv ! 1, argv ! 2]"
proof -
  from assms(2) obtain td d where doc: "fs (argv ! 1) = Inr td" "lib_loads l td = Inr d"
    by (auto simp: load_fails_def split: sum.splits)
  show ?thesis
    using assms(1) doc
    by (simp add: script_defs split: sum.splits verdict.splits prod.splits exn.splits)
qed

text \<open>
  The runs that end without a traceback are the usage error and the two printed
  verdicts.
\<close>

lemma run_handled_trace:
  assumes "\<not> unhandled (fst (run l argv fs))"
  shows "trace (snd (run l argv fs)) = [Stdout usage]
       \<or> (\<exists>line. trace (snd (run l argv fs)) = [ReadText (argv ! 1), ReadText (argv ! 2), Stdout line])"
proof (cases "length argv < 3")
  case True
  then show ?thesis by (simp add: run_usage)
next
  case False
  then have len: "3 \<le> length argv" by simp
  have doc: "\<not> load_fails l fs (argv ! 1)"
    using run_load_doc_fails [OF len] assms by blast
  have sch: "\<not> load_fails l fs (argv ! 2)"
    using run_load_schema_fails [OF len doc] assms by blast
  from doc obtain td d where d: "fs (argv ! 1) = Inr td" "lib_loads l td = Inr d"
    by (auto simp: load_fails_def split: sum.splits)
  from sch obtain ts sc where sc: "fs (argv ! 2) = Inr ts" "lib_loads l ts = Inr sc"
    by (auto simp: load_fails_def split: sum.splits)
  show ?thesis
  proof (cases "lib_validate l d sc")
    case Valid
    with len d sc show ?thesis by (simp add: run_valid)
  next
    case (RaisesValidationError m)
    with len d sc show ?thesis by (simp add: run_invalid)
  next
    case (RaisesSchemaError m)
    with len d sc assms show ?thesis by (simp add: run_schema_error)
  next
    case (RaisesOther m)
    with len d sc assms show ?thesis by (simp add: run_other_error)
  qed
qed

lemma run_exit_status_range:
  "\<not> unhandled (fst (run l argv fs)) \<Longrightarrow> exit_status (fst (run l argv fs)) \<in> {0, 1, 2}"
  by (simp add: script_defs split: sum.splits verdict.splits prod.splits exn.splits if_splits)

text \<open>Unfolding the stand-in environment.\<close>

lemmas stub_defs = stub_fs_def stub_lib_def stub_loads_def

section \<open>The claims\<close>





text \<open>
  Claim C3. With fewer than two command-line arguments (\<^verbatim>\<open>len(sys.argv) < 3\<close>),
  whatever the file system and the libraries are, standard output is exactly the usage
  line, the exit status is 2, and no file is read.
\<close>

theorem too_few_arguments_usage_exits_2:
  assumes "length argv < 3"
  shows "stdout_text (trace (snd (run l argv fs)))
           = ''Usage: validate_local.py <json-file> <schema-file>'' @ [CHR 0x0A]
       \<and> exit_status (fst (run l argv fs)) = 2
       \<and> reads (trace (snd (run l argv fs))) = []"
  by (simp add: run_usage [OF assms] stdout_text_def usage_def)

text \<open>C3 at a concrete run with one argument.\<close>

theorem too_few_arguments_usage_exits_2_witness:
  "length [''validate_local.py'', ''missing.json''] < 3
   \<and> stdout_text (trace (snd (run stub_lib [''validate_local.py'', ''missing.json''] stub_fs)))
       = ''Usage: validate_local.py <json-file> <schema-file>'' @ [CHR 0x0A]
   \<and> exit_status (fst (run stub_lib [''validate_local.py'', ''missing.json''] stub_fs)) = 2
   \<and> reads (trace (snd (run stub_lib [''validate_local.py'', ''missing.json''] stub_fs))) = []"
  using too_few_arguments_usage_exits_2 [of "[''validate_local.py'', ''missing.json'']" stub_lib stub_fs]
  by simp

text \<open>
  Claim C4 as stated says that a run whose document path cannot be read never ends with
  exit status 1. It does: \<^verbatim>\<open>read_text\<close> raises, nothing catches the exception,
  and the interpreter's exit status after an uncaught exception is 1.
\<close>

theorem missing_document_exit_status_1:
  "stub_fs ''missing.json'' = Inl FileNotFoundError
   \<and> length [''validate_local.py'', ''missing.json'', ''accept.json''] = 3
   \<and> \<not> (exit_status (fst (run stub_lib [''validate_local.py'', ''missing.json'', ''accept.json''] stub_fs)) \<noteq> 1)"
  by (simp add: stub_defs script_defs)

text \<open>
  Claim C4, amended. With two arguments whose first path cannot be read, the exception of
  \<^verbatim>\<open>read_text\<close> reaches the top level unhandled: nothing is printed on standard
  output (so neither \<^verbatim>\<open>Validation OK\<close> nor a \<^verbatim>\<open>Validation FAILED:\<close> line),
  the exit status is not 0, and only the document path was opened.
\<close>

theorem unreadable_document_unhandled:
  assumes "3 \<le> length argv" and "fs (argv ! 1) = Inl f"
  shows "fst (run l argv fs) = Inl (ReadError f)
       \<and> unhandled (fst (run l argv fs))
       \<and> stdout_text (trace (snd (run l argv fs))) = []
       \<and> exit_status (fst (run l argv fs)) \<noteq> 0
       \<and> reads (trace (snd (run l argv fs))) = [argv ! 1]"
  using assms by (simp add: run_read_doc_fails stdout_text_def)

text \<open>C4 (amended) at a concrete run: a document that may not be read.\<close>

theorem unreadable_document_unhandled_witness:
  "3 \<le> length [''validate_local.py'', ''secret.json'', ''accept.json'']
   \<and> stub_fs ''secret.json'' = Inl PermissionError
   \<and> fst (run stub_lib [''validate_local.py'', ''secret.json'', ''accept.json''] stub_fs)
       = Inl (ReadError PermissionError)
   \<and> stdout_text (trace (snd (run stub_lib [''validate_local.py'', ''secret.json'', ''accept.json''] stub_fs))) = []
   \<and> exit_status (fst (run stub_lib [''validate_local.py'', ''secret.json'', ''accept.json''] stub_fs)) \<noteq> 0
   \<and> reads (trace (snd (run stub_lib [''validate_local.py'', ''secret.json'', ''accept.json''] stub_fs)))
       = [''secret.json'']"
  using unreadable_document_unhandled
    [of "[''validate_local.py'', ''secret.json'', ''accept.json'']" stub_fs PermissionError stub_lib]
  by (simp add: stub_defs)

text \<open>
  Claim C5 as stated says that a run never reports success when the content of an input
  file is not syntactically valid JSON. It can: the text \<^verbatim>\<open>NaN\<close> is not JSON,
  \<^verbatim>\<open>json.loads\<close> decodes it all the same, and under the schema \<^verbatim>\<open>{}\<close> the
  run prints \<^verbatim>\<open>Validation OK\<close> and ends with exit status 0.
\<close>

theorem nan_document_reports_ok:
  "\<not> json_text ''NaN''
   \<and> stub_fs ''nan.json'' = Inr ''NaN'' \<and> lib_loads stub_lib ''NaN'' = Inr JNaN
   \<and> length [''validate_local.py'', ''nan.json'', ''accept.json''] = 3
   \<and> \<not> unhandled (fst (run stub_lib [''validate_local.py'', ''nan.json'', ''accept.json''] stub_fs))
   \<and> stdout_text (trace (snd (run stub_lib [''validate_local.py'', ''nan.json'', ''accept.json''] stub_fs)))
       = ''Validation OK'' @ [CHR 0x0A]
   \<and> exit_status (fst (run stub_lib [''validate_local.py'', ''nan.json'', ''accept.json''] stub_fs)) = 0"
  by (simp add: json_text_def begin_value_def is_ws_def is_digit19_def
      stub_defs script_defs stdout_text_def)

text \<open>
  Claim C5, amended. With two arguments, when either input file cannot be read or its
  content is refused by \<^verbatim>\<open>json.loads\<close>, the run ends with an unhandled
  exception: nothing is printed on standard output, so no \<^verbatim>\<open>Validation OK\<close>,
  and the exit status is not 0.
\<close>

theorem unparsable_input_unhandled:
  assumes "3 \<le> length argv"
    and "load_fails l fs (argv ! 1) \<or> load_fails l fs (argv ! 2)"
  shows "unhandled (fst (run l argv fs))
       \<and> stdout_text (trace (snd (run l argv fs))) = []
       \<and> exit_status (fst (run l argv fs)) \<noteq> 0"
proof (cases "load_fails l fs (argv ! 1)")
  case True
  from run_load_doc_fails [OF assms(1) True] show ?thesis
    by (cases "fst (run l argv fs)" rule: unhandled.cases) (simp_all add: stdout_text_def)
next
  case False
  with assms(2) have "load_fails l fs (argv ! 2)" by simp
  from run_load_schema_fails [OF assms(1) False this] show ?thesis
    by (cases "fst (run l argv fs)" rule: unhandled.cases) (simp_all add: stdout_text_def)
qed

text \<open>C5 at a concrete run: a schema file holding the text \<^verbatim>\<open>{\<close>.\<close>

theorem unparsable_input_unhandled_witness:
  "3 \<le> length [''validate_local.py'', ''doc.json'', ''broken.json'']
   \<and> stub_fs ''broken.json'' = Inr ''{'' \<and> lib_loads stub_lib ''{'' = Inl ''Expecting value''
   \<and> load_fails stub_lib stub_fs ''broken.json''
   \<and> unhandled (fst (run stub_lib [''validate_local.py'', ''doc.json'', ''broken.json''] stub_fs))
   \<and> stdout_text (trace (snd (run stub_lib [''validate_local.py'', ''doc.json'', ''broken.json''] stub_fs))) = []
   \<and> exit_status (fst (run stub_lib [''validate_local.py'', ''doc.json'', ''broken.json''] stub_fs)) \<noteq> 0"
  using unparsable_input_unhandled
    [of "[''validate_local.py'', ''doc.json'', ''broken.json'']" stub_lib stub_fs]
  by (simp add: stub_defs load_fails_def)

text \<open>
  Claim C6. A run that reaches the load step opens the document path first. When reading
  or parsing the document fails, that is the only file opened: the schema is never
  opened. Otherwise the schema path is opened second.
\<close>

theorem document_loaded_before_schema:
  assumes "3 \<le> length argv"
  shows "reads (trace (snd (run l argv fs)))
           = (if load_fails l fs (argv ! 1) then [argv ! 1] else [argv ! 1, argv ! 2])"
  using assms run_load_doc_fails [of argv l fs] run_loaded_reads [of argv l fs]
  by simp

text \<open>C6 at two concrete runs: a document that does not parse, and one that does.\<close>

theorem document_loaded_before_schema_witness:
  "3 \<le> length [''validate_local.py'', ''broken.json'', ''accept.json'']
   \<and> load_fails stub_lib stub_fs ''broken.json''
   \<and> reads (trace (snd (run stub_lib [''validate_local.py'', ''broken.json'', ''accept.json''] stub_fs)))
       = [''broken.json'']
   \<and> \<not> load_fails stub_lib stub_fs ''doc.json''
   \<and> reads (trace (snd (run stub_lib [''validate_local.py'', ''doc.json'', ''accept.json''] stub_fs)))
       = [''doc.json'', ''accept.json'']"
  using document_loaded_before_schema
    [of "[''validate_local.py'', ''broken.json'', ''accept.json'']" stub_lib stub_fs]
    document_loaded_before_schema
    [of "[''validate_local.py'', ''doc.json'', ''accept.json'']" stub_lib stub_fs]
  by (simp add: stub_defs load_fails_def)

text \<open>
  Claim C7. A second run with the same arguments, started on the file system the first
  run left behind, writes the same standard output and has the same exit status; the
  file system is still the one the first run started on.
\<close>

theorem second_run_same_output:
  assumes "run l argv fs = (r1, s1)" and "run l argv (files s1) = (r2, s2)"
  shows "stdout_text (trace s2) = stdout_text (trace s1)
       \<and> exit_status r2 = exit_status r1
       \<and> files s2 = fs"
proof -
  have "files s1 = fs"
    using assms(1) run_files [of l argv fs] by simp
  with assms show ?thesis by simp
qed

text \<open>C7 at a concrete pair of runs.\<close>

theorem second_run_same_output_witness:
  "stdout_text (trace (snd (run stub_lib [''validate_local.py'', ''doc.json'', ''reject.json'']
       (files (snd (run stub_lib [''validate_local.py'', ''doc.json'', ''reject.json''] stub_fs))))))
     = stdout_text (trace (snd (run stub_lib [''validate_local.py'', ''doc.json'', ''reject.json''] stub_fs)))
   \<and> exit_status (fst (run stub_lib [''validate_local.py'', ''doc.json'', ''reject.json'']
       (files (snd (run stub_lib [''validate_local.py'', ''doc.json'', ''reject.json''] stub_fs)))))
     = exit_status (fst (run stub_lib [''validate_local.py'', ''doc.json'', ''reject.json''] stub_fs))"
  using second_run_same_output
    [of stub_lib "[''validate_local.py'', ''doc.json'', ''reject.json'']" stub_fs
        "fst (run stub_lib [''validate_local.py'', ''doc.json'', ''reject.json''] stub_fs)"
        "snd (run stub_lib [''validate_local.py'', ''doc.json'', ''reject.json''] stub_fs)"
        "fst (run stub_lib [''validate_local.py'', ''doc.json'', ''reject.json'']
           (files (snd (run stub_lib [''validate_local.py'', ''doc.json'', ''reject.json''] stub_fs))))"
        "snd (run stub_lib [''validate_local.py'', ''doc.json'', ''reject.json'']
           (files (snd (run stub_lib [''validate_local.py'', ''doc.json'', ''reject.json''] stub_fs))))"]
  by simp

text \<open>
  Claim C8. With more than two command-line arguments, the run is the run on the program
  name and the first two arguments alone: same result, same trace, hence same standard
  output and exit status.
\<close>

theorem extra_arguments_ignored:
  assumes "3 < length argv"
  shows "run l argv fs = run l (take 3 argv) fs"
  using assms by (simp add: script_defs)

text \<open>C8 at a concrete run with two extra arguments.\<close>

theorem extra_arguments_ignored_witness:
  "3 < length [''validate_local.py'', ''doc.json'', ''reject.json'', ''accept.json'', ''--quiet'']
   \<and> run stub_lib [''validate_local.py'', ''doc.json'', ''reject.json'', ''accept.json'', ''--quiet''] stub_fs
     = run stub_lib [''validate_local.py'', ''doc.json'', ''reject.json''] stub_fs"
  using extra_arguments_ignored
    [of "[''validate_local.py'', ''doc.json'', ''reject.json'', ''accept.json'', ''--quiet'']"
        stub_lib stub_fs]
  by simp

text \<open>
  Claim C9. On the paths that end without an unhandled exception (usage error,
  validation success, validation failure) the file system is unchanged, and the whole
  trace is: reads of at most two files, both among the two paths given, followed by
  exactly one line on standard output; the exit status is 0, 1 or 2. What the validation
  library does inside its call is not part of the trace.
\<close>

theorem handled_paths_effects:
  assumes "run l argv fs = (r, s)" and "\<not> unhandled r"
  shows "files s = fs
       \<and> trace s = map ReadText (reads (trace s)) @ map Stdout (stdout_lines (trace s))
       \<and> length (reads (trace s)) \<le> 2
       \<and> set (reads (trace s)) \<subseteq> {argv ! 1, argv ! 2}
       \<and> length (stdout_lines (trace s)) = 1
       \<and> exit_status r \<in> {0, 1, 2}"
proof -
  have r: "r = fst (run l argv fs)" and s: "s = snd (run l argv fs)"
    using assms(1) by simp_all
  have "files s = fs"
    unfolding s by (rule run_files)
  moreover have "exit_status r \<in> {0, 1, 2}"
    using assms(2) unfolding r by (rule run_exit_status_range)
  moreover have "trace s = [Stdout usage]
       \<or> (\<exists>line. trace s = [ReadText (argv ! 1), ReadText (argv ! 2), Stdout line])"
    using assms(2) unfolding r s by (rule run_handled_trace)
  ultimately show ?thesis by auto
qed

text \<open>C9 at a concrete run: a validation failure.\<close>

theorem handled_paths_effects_witness:
  "\<not> unhandled (fst (run stub_lib [''validate_local.py'', ''doc.json'', ''reject.json''] stub_fs))
   \<and> files (snd (run stub_lib [''validate_local.py'', ''doc.json'', ''reject.json''] stub_fs)) = stub_fs
   \<and> reads (trace (snd (run stub_lib [''validate_local.py'', ''doc.json'', ''reject.json''] stub_fs)))
       = [''doc.json'', ''reject.json'']
   \<and> length (stdout_lines (trace (snd (run stub_lib [''validate_local.py'', ''doc.json'', ''reject.json''] stub_fs)))) = 1
   \<and> exit_status (fst (run stub_lib [''validate_local.py'', ''doc.json'', ''reject.json''] stub_fs)) \<in> {0, 1, 2}"
proof -
  have h: "\<not> unhandled (fst (run stub_lib [''validate_local.py'', ''doc.json'', ''reject.json''] stub_fs))"
    by (simp add: stub_defs script_defs)
  have rd: "reads (trace (snd (run stub_lib [''validate_local.py'', ''doc.json'', ''reject.json''] stub_fs)))
       = [''doc.json'', ''reject.json'']"
    by (simp add: stub_defs script_defs)
  from handled_paths_effects [OF surjective_pairing h] h rd show ?thesis
    by blast
qed

text \<open>
  Claim C10. When \<^verbatim>\<open>validate\<close> raises something other than
  \<^verbatim>\<open>ValidationError\<close>, such as \<^verbatim>\<open>SchemaError\<close>, the handler does not
  apply: the exception reaches the top level unhandled and nothing is printed on
  standard output.
\<close>

theorem other_validator_error_unhandled:
  assumes "3 \<le> length argv"
    and "fs (argv ! 1) = Inr td" and "lib_loads l td = Inr d"
    and "fs (argv ! 2) = Inr ts" and "lib_loads l ts = Inr sc"
    and "lib_validate l d sc = RaisesSchemaError m \<or> lib_validate l d sc = RaisesOther m"
  shows "unhandled (fst (run l argv fs))
       \<and> (fst (run l argv fs) = Inl (SchemaError m) \<or> fst (run l argv fs) = Inl (OtherError m))
       \<and> stdout_text (trace (snd (run l argv fs))) = []"
  using assms(6)
proof
  assume "lib_validate l d sc = RaisesSchemaError m"
  with assms(1-5) show ?thesis
    by (simp add: run_schema_error stdout_text_def)
next
  assume "lib_validate l d sc = RaisesOther m"
  with assms(1-5) show ?thesis
    by (simp add: run_other_error stdout_text_def)
qed

text \<open>C10 at a concrete run: a schema file holding \<^verbatim>\<open>[]\<close>.\<close>

theorem other_validator_error_unhandled_witness:
  "3 \<le> length [''validate_local.py'', ''doc.json'', ''list.json'']
   \<and> stub_fs ''doc.json'' = Inr ''12'' \<and> lib_loads stub_lib ''12'' = Inr (JNum 12)
   \<and> stub_fs ''list.json'' = Inr ''[]'' \<and> lib_loads stub_lib ''[]'' = Inr (JArr [])
   \<and> lib_validate stub_lib (JNum 12) (JArr []) = RaisesSchemaError ''not a schema''
   \<and> fst (run stub_lib [''validate_local.py'', ''doc.json'', ''list.json''] stub_fs)
       = Inl (SchemaError ''not a schema'')
   \<and> stdout_text (trace (snd (run stub_lib [''validate_local.py'', ''doc.json'', ''list.json''] stub_fs))) = []"
  using other_validator_error_unhandled
    [of "[''validate_local.py'', ''doc.json'', ''list.json'']" stub_fs "''12''" stub_lib
        "JNum 12" "''[]''" "JArr []" "''not a schema''"]
  by (simp add: stub_defs script_defs)

end
